theory Spec2Isabelle
  imports Complex_Main "HOL-Library.Monad_Syntax"
begin

section \<open>Data model (core/models.py)\<close>

text \<open>
  Every Django model that the verified operations read or write is a record, and every
  database table is the list of its rows in insertion order. Character fields stay
  strings, as in the source: \<open>Reservation.status\<close> and \<open>Accommodation.type\<close> are
  \<open>CharField\<close>s whose \<open>choices\<close> are enforced by serializers only, never by
  \<open>save()\<close>. A \<open>DateField\<close> is the day number of the date, a \<open>DateTimeField\<close> likewise
  an integer, \<open>DecimalField\<close> a rational and \<open>FloatField\<close> a real number (Python floats
  are idealised as reals: no rounding, no NaN, no infinities). Columns that no modelled
  operation reads (descriptions, photos, postal addresses, owners, \<open>created_at\<close>,
  \<open>updated_at\<close>, \<open>ip_address\<close>) are left out.
\<close>

type_synonym date = int

record member =
  member_id :: nat
  member_university :: nat

record specialist =
  specialist_id :: nat

record campus =
  campus_id :: nat
  campus_latitude :: real
  campus_longitude :: real

record accommodation =
  acc_id :: nat
  name :: string
  universities :: "nat list"
  acc_type :: string
  num_bedrooms :: nat
  num_beds :: nat
  latitude :: real
  longitude :: real
  available_from :: date
  available_to :: date
  monthly_rent :: rat
  is_available :: bool

record reservation =
  res_id :: nat
  res_accommodation :: nat
  res_member :: nat
  reserved_from :: date
  reserved_to :: date
  contact_name :: string
  contact_phone :: string
  status :: string

record rating =
  rat_id :: nat
  rat_accommodation :: nat
  rat_member :: nat
  rat_reservation :: nat
  score :: int
  comment :: string
  is_approved :: bool
  moderated_by :: "nat option"
  moderation_date :: "int option"
  moderation_note :: string

record action_log =
  action_type :: string
  user_type :: string
  user_id :: "nat option"
  accommodation_id :: "nat option"
  reservation_id :: "nat option"
  rating_id :: "nat option"
  details :: string

record db =
  members :: "member list"
  specialists :: "specialist list"
  campuses :: "campus list"
  accommodations :: "accommodation list"
  reservations :: "reservation list"
  ratings :: "rating list"
  action_logs :: "action_log list"

text \<open>\<open>Reservation.STATUS_CHOICES\<close>, value and display name.\<close>

definition STATUS_CHOICES :: "(string \<times> string) list" where
  "STATUS_CHOICES =
     [(''PENDING'', ''Pending''), (''CONFIRMED'', ''Confirmed''),
      (''CANCELLED'', ''Cancelled''), (''COMPLETED'', ''Completed'')]"

subsection \<open>The object-relational layer\<close>

text \<open>
  \<open>Model.objects.get(pk=k)\<close> is \<open>find\<close> on the table: \<open>None\<close> stands for
  \<open>DoesNotExist\<close>. \<open>instance.save()\<close> on a loaded instance rewrites the row carrying
  its primary key (and inserts the row when no such row exists, as Django does).
  \<open>ActionLog.objects.create\<close> appends one row. Following a foreign key
  (\<open>reservation.accommodation\<close>) is a \<open>get\<close> on the target table; where the source
  only reads the \<open>id\<close> of the target (\<open>reservation.member.id\<close>,
  \<open>reservation.accommodation.id\<close>), the model reads the stored key.
\<close>

definition get_member :: "db \<Rightarrow> nat \<Rightarrow> member option" where
  "get_member s k = find (\<lambda>m. member_id m = k) (members s)"

definition get_specialist :: "db \<Rightarrow> nat \<Rightarrow> specialist option" where
  "get_specialist s k = find (\<lambda>x. specialist_id x = k) (specialists s)"

definition get_campus :: "db \<Rightarrow> nat \<Rightarrow> campus option" where
  "get_campus s k = find (\<lambda>c. campus_id c = k) (campuses s)"

definition get_accommodation :: "db \<Rightarrow> nat \<Rightarrow> accommodation option" where
  "get_accommodation s k = find (\<lambda>a. acc_id a = k) (accommodations s)"

definition get_reservation :: "db \<Rightarrow> nat \<Rightarrow> reservation option" where
  "get_reservation s k = find (\<lambda>r. res_id r = k) (reservations s)"

definition get_rating :: "db \<Rightarrow> nat \<Rightarrow> rating option" where
  "get_rating s k = find (\<lambda>r. rat_id r = k) (ratings s)"

definition save_row :: "('a \<Rightarrow> nat) \<Rightarrow> 'a \<Rightarrow> 'a list \<Rightarrow> 'a list" where
  "save_row key x xs =
     (if list_ex (\<lambda>y. key y = key x) xs
      then map (\<lambda>y. if key y = key x then x else y) xs
      else xs @ [x])"

definition save_accommodation :: "accommodation \<Rightarrow> db \<Rightarrow> db" where
  "save_accommodation a s = s\<lparr>accommodations := save_row acc_id a (accommodations s)\<rparr>"

definition save_reservation :: "reservation \<Rightarrow> db \<Rightarrow> db" where
  "save_reservation r s = s\<lparr>reservations := save_row res_id r (reservations s)\<rparr>"

definition save_rating :: "rating \<Rightarrow> db \<Rightarrow> db" where
  "save_rating r s = s\<lparr>ratings := save_row rat_id r (ratings s)\<rparr>"

definition ActionLog_create :: "action_log \<Rightarrow> db \<Rightarrow> db" where
  "ActionLog_create e s = s\<lparr>action_logs := action_logs s @ [e]\<rparr>"

text \<open>The primary key an auto-increment column gives the next inserted row.\<close>

definition next_id :: "nat list \<Rightarrow> nat" where
  "next_id ks = Suc (fold max ks 0)"

subsection \<open>\<open>Accommodation.calculate_distance\<close>\<close>

definition radians :: "real \<Rightarrow> real" where
  "radians d = d * pi / 180"

definition calculate_distance :: "accommodation \<Rightarrow> campus \<Rightarrow> real" where
  "calculate_distance self c =
     (let R = 6371;
          lat1 = radians (latitude self);
          lon1 = radians (longitude self);
          lat2 = radians (campus_latitude c);
          lon2 = radians (campus_longitude c);
          x = (lon2 - lon1) * cos ((lat1 + lat2) / 2);
          y = lat2 - lat1;
          d = R * sqrt (x * x + y * y)
      in d)"

subsection \<open>\<open>Reservation\<close> methods\<close>

text \<open>
  \<open>hasattr(self, 'rating')\<close> on the reverse side of the one-to-one field is true
  exactly when a \<open>Rating\<close> row points at the reservation.
\<close>

definition has_rating :: "db \<Rightarrow> reservation \<Rightarrow> bool" where
  "has_rating s self = list_ex (\<lambda>r. rat_reservation r = res_id self) (ratings s)"

definition can_be_rated :: "db \<Rightarrow> reservation \<Rightarrow> bool" where
  "can_be_rated s self = (status self = ''COMPLETED'' \<and> \<not> has_rating s self)"

definition can_be_cancelled :: "reservation \<Rightarrow> bool" where
  "can_be_cancelled self = (status self = ''PENDING'')"

text \<open>
  \<open>Reservation.cancel\<close>. The result is \<open>Some b\<close> for \<open>return b\<close> and \<open>None\<close> when
  following \<open>self.accommodation\<close> raises because the row is gone (the database's
  foreign-key constraint rules that out; the branch is kept because the source has it).
\<close>

definition Reservation_cancel :: "db \<Rightarrow> reservation \<Rightarrow> bool option \<times> db" where
  "Reservation_cancel s self =
     (if can_be_cancelled self then
        (let self' = self\<lparr>status := ''CANCELLED''\<rparr>;
             s1 = save_reservation self' s
         in case get_accommodation s1 (res_accommodation self') of
              None \<Rightarrow> (None, s1)
            | Some a \<Rightarrow> (Some False, save_accommodation (a\<lparr>is_available := True\<rparr>) s1))
      else (Some False, s))"

section \<open>Requests and responses (core/views.py)\<close>

text \<open>
  A response is its body and its HTTP status code. \<open>NotFound\<close> is the body of the 404
  that \<open>get_object()\<close> produces, \<open>ServerError\<close> that of the 500 an uncaught exception
  ends in, \<open>SerializerErrors\<close> stands for \<open>serializer.errors\<close>. Serialised model
  instances are the records themselves.
\<close>

datatype body =
    Error string
  | Status string
  | NotFound
  | ServerError
  | SerializerErrors
  | ReservationData reservation
  | RatingStatus string rating
  | AccommodationList "accommodation list"
  | AccommodationDistanceList "(accommodation \<times> real) list"

datatype response = Response body nat

fun status_code :: "response \<Rightarrow> nat" where
  "status_code (Response b c) = c"

fun response_body :: "response \<Rightarrow> body" where
  "response_body (Response b c) = b"

text \<open>
  A request parameter that the source converts to a number or a date is \<open>Absent\<close>
  (missing, or empty and therefore falsy), \<open>Malformed\<close> (present, but the conversion the
  object-relational layer applies to it raises) or \<open>Given\<close> with its value. A parameter
  the source uses as a string is a \<open>string option\<close>, and \<open>truthy\<close> is Python's test
  \<open>if value:\<close> on it.
\<close>

datatype 'a param = Absent | Malformed | Given 'a

definition truthy :: "string option \<Rightarrow> bool" where
  "truthy v = (case v of None \<Rightarrow> False | Some x \<Rightarrow> x \<noteq> [])"

subsection \<open>\<open>AccommodationViewSet.search\<close>\<close>

record search_query =
  q_type :: "string option"
  q_available_from :: "date param"
  q_available_to :: "date param"
  q_num_beds :: "int param"
  q_num_bedrooms :: "int param"
  q_min_price :: "rat param"
  q_max_price :: "rat param"
  q_campus_id :: "nat param"
  q_sort_by :: "string option"
  q_member_id :: "nat param"

text \<open>
  One \<open>if value: queryset = queryset.filter(...)\<close> step: \<open>None\<close> when the conversion
  of the value raises.
\<close>

definition filter_by ::
  "'a param \<Rightarrow> ('a \<Rightarrow> accommodation \<Rightarrow> bool) \<Rightarrow> accommodation list \<Rightarrow> accommodation list option" where
  "filter_by p f queryset =
     (case p of
        Absent \<Rightarrow> Some queryset
      | Malformed \<Rightarrow> None
      | Given v \<Rightarrow> Some (filter (f v) queryset))"

definition filter_type :: "string option \<Rightarrow> accommodation list \<Rightarrow> accommodation list" where
  "filter_type t queryset =
     (case t of
        None \<Rightarrow> queryset
      | Some v \<Rightarrow> if v \<noteq> [] then filter (\<lambda>a. acc_type a = v) queryset else queryset)"

text \<open>
  Step 4 of \<open>search\<close>,
  \<^verbatim>\<open>queryset.exclude(reservation__reserved_from__lt=available_to,
                   reservation__reserved_to__gt=available_from,
                   reservation__status__in=['PENDING', 'CONFIRMED'])\<close>.
  \<open>reservation\<close> is the reverse side of \<open>Reservation.accommodation\<close>, a multi-valued
  relationship. Django turns every condition of one \<open>exclude()\<close> call that spans such a
  relationship into a subquery of its own (\<open>Query.split_exclude\<close>, called per lookup);
  its documentation ("Spanning multi-valued relationships") says so: the conditions in a
  single \<open>exclude()\<close> call will not necessarily refer to the same item. A row is
  therefore dropped when the accommodation has some reservation that starts before
  \<open>available_to\<close>, some reservation that ends after \<open>available_from\<close> and some
  reservation that is pending or confirmed; the three need not be the same reservation.
\<close>

definition reservations_of :: "db \<Rightarrow> accommodation \<Rightarrow> reservation list" where
  "reservations_of s a = filter (\<lambda>r. res_accommodation r = acc_id a) (reservations s)"

definition excluded :: "db \<Rightarrow> date \<Rightarrow> date \<Rightarrow> accommodation \<Rightarrow> bool" where
  "excluded s available_from' available_to' a =
     (list_ex (\<lambda>r. reserved_from r < available_to') (reservations_of s a) \<and>
      list_ex (\<lambda>r. reserved_to r > available_from') (reservations_of s a) \<and>
      list_ex (\<lambda>r. status r \<in> set [''PENDING'', ''CONFIRMED'']) (reservations_of s a))"

definition exclude_overlapping ::
  "db \<Rightarrow> date param \<Rightarrow> date param \<Rightarrow> accommodation list \<Rightarrow> accommodation list" where
  "exclude_overlapping s pf pt queryset =
     (case (pf, pt) of
        (Given f, Given t) \<Rightarrow> remdups (filter (\<lambda>a. \<not> excluded s f t a) queryset)
      | _ \<Rightarrow> queryset)"

text \<open>Steps 2 to 4: the filtered queryset, \<open>None\<close> when a conversion raised.\<close>

definition filtered :: "db \<Rightarrow> member \<Rightarrow> search_query \<Rightarrow> accommodation list option" where
  "filtered s m q =
     do {
       let queryset = filter (\<lambda>a. member_university m \<in> set (universities a) \<and> is_available a)
                        (accommodations s);
       let queryset = filter_type (q_type q) queryset;
       queryset \<leftarrow> filter_by (q_available_from q) (\<lambda>v a. available_from a \<le> v) queryset;
       queryset \<leftarrow> filter_by (q_available_to q) (\<lambda>v a. available_to a \<ge> v) queryset;
       queryset \<leftarrow> filter_by (q_num_beds q) (\<lambda>v a. int (num_beds a) \<ge> v) queryset;
       queryset \<leftarrow> filter_by (q_num_bedrooms q) (\<lambda>v a. int (num_bedrooms a) \<ge> v) queryset;
       queryset \<leftarrow> filter_by (q_min_price q) (\<lambda>v a. monthly_rent a \<ge> v) queryset;
       queryset \<leftarrow> filter_by (q_max_price q) (\<lambda>v a. monthly_rent a \<le> v) queryset;
       Some (exclude_overlapping s (q_available_from q) (q_available_to q) queryset)
     }"

text \<open>
  Python's \<open>round(distance, 2)\<close> on the idealised value: to the nearest hundredth,
  a tie to the even one.
\<close>

definition round2 :: "real \<Rightarrow> real" where
  "round2 d =
     (let n = \<lfloor>d * 100\<rfloor>; f = d * 100 - of_int n
      in (if f < 1 / 2 then of_int n
          else if f > 1 / 2 then of_int (n + 1)
          else if even n then of_int n else of_int (n + 1)) / 100)"

text \<open>
  Step 5 and the distance ranking. \<open>order_by('monthly_rent')\<close> is a sort on the rent
  (the order among equal rents is the database's choice; the model takes the stable one),
  \<open>order_by('-monthly_rent')\<close> its reverse, \<open>list.sort(key=...)\<close> Python's stable sort.
\<close>

definition rank :: "db \<Rightarrow> search_query \<Rightarrow> accommodation list \<Rightarrow> response" where
  "rank s q queryset =
     (let sort_by = (case q_sort_by q of None \<Rightarrow> ''distance'' | Some v \<Rightarrow> v)
      in if sort_by = ''price_asc'' then
           Response (AccommodationList (sort_key monthly_rent queryset)) 200
         else if sort_by = ''price_desc'' then
           Response (AccommodationList (rev (sort_key monthly_rent queryset))) 200
         else
           (case q_campus_id q of
              Absent \<Rightarrow> Response (AccommodationList queryset) 200
            | Malformed \<Rightarrow> Response ServerError 500
            | Given k \<Rightarrow>
                (case get_campus s k of
                   None \<Rightarrow> Response (Error ''Campus not found'') 404
                 | Some c \<Rightarrow>
                     (let accommodations_with_distance =
                            sort_key snd (map (\<lambda>a. (a, calculate_distance a c)) queryset)
                      in Response (AccommodationDistanceList
                            (map (\<lambda>(a, d). (a, round2 d)) accommodations_with_distance)) 200))))"

definition search :: "db \<Rightarrow> search_query \<Rightarrow> response" where
  "search s q =
     (case q_member_id q of
        Absent \<Rightarrow> Response (Error ''member_id is required for searching accommodations'') 400
      | Malformed \<Rightarrow> Response ServerError 500
      | Given k \<Rightarrow>
          (case get_member s k of
             None \<Rightarrow> Response (Error ''Member not found'') 404
           | Some m \<Rightarrow>
               (case filtered s m q of
                  None \<Rightarrow> Response ServerError 500
                | Some queryset \<Rightarrow> rank s q queryset)))"

text \<open>The accommodations a search response lists, in order.\<close>

fun listed :: "response \<Rightarrow> accommodation list" where
  "listed (Response (AccommodationList xs) c) = xs"
| "listed (Response (AccommodationDistanceList ps) c) = map fst ps"
| "listed (Response b c) = []"

subsection \<open>\<open>AccommodationViewSet.reserve\<close>\<close>

text \<open>
  \<open>request.data\<close> is a dictionary of strings. Two collaborators of \<open>reserve\<close> live in
  modules of the repository that are not part of the verified sources and are parameters
  of the model: \<open>validate_required_fields\<close> (core/utils.py), which gives \<open>Some\<close> message
  when it raises \<open>ValueError\<close>, and the validation of \<open>ReservationSerializer\<close>
  (core/serializers.py), which gives the converted fields or \<open>None\<close> when \<open>is_valid()\<close>
  is false. \<open>serializer.save()\<close> inserts the row built from the validated fields; its
  \<open>accommodation\<close> and \<open>status\<close> are the ones the view put into the serializer's input.
\<close>

type_synonym request_data = "string \<Rightarrow> string option"

record reservation_input =
  in_accommodation :: nat
  in_member :: "string option"
  in_reserved_from :: "string option"
  in_reserved_to :: "string option"
  in_contact_name :: "string option"
  in_contact_phone :: "string option"
  in_status :: string

record validated_data =
  v_member :: nat
  v_reserved_from :: date
  v_reserved_to :: date
  v_contact_name :: string
  v_contact_phone :: string

definition quoted :: "string \<Rightarrow> string" where
  "quoted x = [CHR 0x27] @ x @ [CHR 0x27]"

definition reserve ::
  "(request_data \<Rightarrow> string list \<Rightarrow> string option) \<Rightarrow>
   (db \<Rightarrow> reservation_input \<Rightarrow> validated_data option) \<Rightarrow>
   db \<Rightarrow> nat \<Rightarrow> request_data \<Rightarrow> response \<times> db" where
  "reserve validate_required_fields is_valid s pk data =
     (case get_accommodation s pk of
        None \<Rightarrow> (Response NotFound 404, s)
      | Some accommodation \<Rightarrow>
          if \<not> is_available accommodation then
            (Response (Error ''Accommodation not available'') 400, s)
          else
            (case validate_required_fields data
                    [''member_id'', ''reserved_from'', ''reserved_to'',
                     ''contact_name'', ''contact_phone''] of
               Some e \<Rightarrow> (Response (Error e) 400, s)
             | None \<Rightarrow>
                 (let input = \<lparr>in_accommodation = acc_id accommodation,
                               in_member = data ''member_id'',
                               in_reserved_from = data ''reserved_from'',
                               in_reserved_to = data ''reserved_to'',
                               in_contact_name = data ''contact_name'',
                               in_contact_phone = data ''contact_phone'',
                               in_status = ''PENDING''\<rparr>
                  in case is_valid s input of
                       None \<Rightarrow> (Response SerializerErrors 400, s)
                     | Some v \<Rightarrow>
                         (let reservation =
                                \<lparr>res_id = next_id (map res_id (reservations s)),
                                 res_accommodation = in_accommodation input,
                                 res_member = v_member v,
                                 reserved_from = v_reserved_from v,
                                 reserved_to = v_reserved_to v,
                                 contact_name = v_contact_name v,
                                 contact_phone = v_contact_phone v,
                                 status = in_status input\<rparr>;
                              s1 = s\<lparr>reservations := reservations s @ [reservation]\<rparr>;
                              s2 = save_accommodation (accommodation\<lparr>is_available := False\<rparr>) s1;
                              s3 = ActionLog_create
                                     \<lparr>action_type = ''CREATE_RESERVATION'',
                                      user_type = ''MEMBER'',
                                      user_id = Some (res_member reservation),
                                      accommodation_id = Some (acc_id accommodation),
                                      reservation_id = Some (res_id reservation),
                                      rating_id = None,
                                      details = ''Created reservation for ''
                                                @ quoted (name accommodation)\<rparr> s2
                          in (Response (ReservationData reservation) 201, s3)))))"

subsection \<open>\<open>AccommodationViewSet.destroy\<close>\<close>

text \<open>
  \<open>perform_destroy\<close> deletes the row; the \<open>CASCADE\<close> foreign keys take the
  accommodation's reservations and the ratings of either with it.
\<close>

definition perform_destroy :: "accommodation \<Rightarrow> db \<Rightarrow> db" where
  "perform_destroy a s =
     (let gone = map res_id (filter (\<lambda>r. res_accommodation r = acc_id a) (reservations s))
      in s\<lparr>accommodations := filter (\<lambda>x. acc_id x \<noteq> acc_id a) (accommodations s),
           reservations := filter (\<lambda>r. res_accommodation r \<noteq> acc_id a) (reservations s),
           ratings := filter (\<lambda>t. rat_accommodation t \<noteq> acc_id a \<and> rat_reservation t \<notin> set gone)
                        (ratings s)\<rparr>)"

text \<open>
  An \<open>ActionLog\<close> created without \<open>user_type\<close> takes the column's default,
  \<open>'SPECIALIST'\<close>.
\<close>

definition delete_log :: "string \<Rightarrow> nat option \<Rightarrow> action_log" where
  "delete_log nm uid =
     \<lparr>action_type = ''DELETE_ACCOMMODATION'', user_type = ''SPECIALIST'', user_id = uid,
      accommodation_id = None, reservation_id = None, rating_id = None,
      details = ''Deleted accommodation '' @ quoted nm\<rparr>"

definition destroy :: "db \<Rightarrow> nat \<Rightarrow> nat param \<Rightarrow> response \<times> db" where
  "destroy s pk specialist_id' =
     (case get_accommodation s pk of
        None \<Rightarrow> (Response NotFound 404, s)
      | Some accommodation \<Rightarrow>
          (let active_reservations =
                 list_ex (\<lambda>r. res_accommodation r = acc_id accommodation \<and>
                               status r \<in> set [''PENDING'', ''CONFIRMED'']) (reservations s)
           in if active_reservations then
                (Response (Error ''Cannot delete accommodation with active reservations'') 400, s)
              else
                (let nm = name accommodation;
                     s1 = perform_destroy accommodation s;
                     ok = Response (Status (''Accommodation '' @ quoted nm @ '' successfully deleted'')) 200
                 in case specialist_id' of
                      Absent \<Rightarrow> (ok, ActionLog_create (delete_log nm None) s1)
                    | Malformed \<Rightarrow> (Response ServerError 500, s1)
                    | Given k \<Rightarrow>
                        (case get_specialist s1 k of
                           Some sp \<Rightarrow> (ok, ActionLog_create (delete_log nm (Some (specialist_id sp))) s1)
                         | None \<Rightarrow> (ok, ActionLog_create (delete_log nm None) s1)))))"

subsection \<open>\<open>ReservationViewSet.cancel\<close>\<close>

definition cancel :: "db \<Rightarrow> nat \<Rightarrow> response \<times> db" where
  "cancel s pk =
     (case get_reservation s pk of
        None \<Rightarrow> (Response NotFound 404, s)
      | Some reservation \<Rightarrow>
          if status reservation = ''CONFIRMED'' then
            (Response (Error ''Cannot cancel a confirmed reservation'') 400, s)
          else
            (let old_status = status reservation;
                 reservation = reservation\<lparr>status := ''CANCELLED''\<rparr>;
                 s1 = save_reservation reservation s
             in case get_accommodation s1 (res_accommodation reservation) of
                  None \<Rightarrow> (Response ServerError 500, s1)
                | Some accommodation \<Rightarrow>
                    (let s2 = save_accommodation (accommodation\<lparr>is_available := True\<rparr>) s1;
                         s3 = ActionLog_create
                                \<lparr>action_type = ''CANCEL_RESERVATION'',
                                 user_type = ''MEMBER'',
                                 user_id = Some (res_member reservation),
                                 accommodation_id = Some (acc_id accommodation),
                                 reservation_id = Some (res_id reservation),
                                 rating_id = None,
                                 details = ''Reservation cancelled; status changed from ''
                                           @ old_status @ '' to CANCELLED''\<rparr> s2
                     in (Response (Status ''Reservation cancelled successfully'') 200, s3))))"

subsection \<open>\<open>ReservationViewSet.update_status\<close>\<close>

text \<open>
  The side effects of the new status: only the last branch of the source's
  \<open>if\<close>/\<open>elif\<close> chain does anything. \<open>None\<close> when following
  \<open>reservation.accommodation\<close> raises.
\<close>

definition status_side_effect :: "string \<Rightarrow> string \<Rightarrow> reservation \<Rightarrow> db \<Rightarrow> db option" where
  "status_side_effect new_status old_status reservation s =
     (if new_status = ''CONFIRMED'' \<and> old_status = ''PENDING'' then Some s
      else if new_status = ''COMPLETED'' \<and> old_status \<noteq> ''COMPLETED'' then Some s
      else if new_status = ''CANCELLED'' \<and> old_status \<noteq> ''CANCELLED'' then
        (case get_accommodation s (res_accommodation reservation) of
           None \<Rightarrow> None
         | Some accommodation \<Rightarrow> Some (save_accommodation (accommodation\<lparr>is_available := True\<rparr>) s))
      else Some s)"

definition update_status :: "db \<Rightarrow> nat \<Rightarrow> string option \<Rightarrow> response \<times> db" where
  "update_status s pk new_status' =
     (case get_reservation s pk of
        None \<Rightarrow> (Response NotFound 404, s)
      | Some reservation \<Rightarrow>
          (let valid_statuses = map fst STATUS_CHOICES;
               invalid = (Response (Error ''Invalid status value'') 400, s)
           in case new_status' of
                None \<Rightarrow> invalid
              | Some new_status \<Rightarrow>
                  if new_status = [] \<or> new_status \<notin> set valid_statuses then invalid
                  else
                    (let old_status = status reservation;
                         reservation = reservation\<lparr>status := new_status\<rparr>;
                         s1 = save_reservation reservation s
                     in case status_side_effect new_status old_status reservation s1 of
                          None \<Rightarrow> (Response ServerError 500, s1)
                        | Some s2 \<Rightarrow>
                            (let s3 = ActionLog_create
                                        \<lparr>action_type = ''UPDATE_RESERVATION_STATUS'',
                                         user_type = ''MEMBER'',
                                         user_id = Some (res_member reservation),
                                         accommodation_id = Some (res_accommodation reservation),
                                         reservation_id = Some (res_id reservation),
                                         rating_id = None,
                                         details = ''Reservation status updated from '' @ old_status
                                                   @ '' to '' @ new_status\<rparr> s2
                             in (Response (ReservationData reservation) 200, s3)))))"

subsection \<open>\<open>RatingViewSet.moderate\<close>\<close>

text \<open>
  \<open>now\<close> is the value of \<open>timezone.now()\<close>. \<open>is_approved\<close> is \<open>Absent\<close> when the
  request has no such key (the source then takes \<open>True\<close>) and \<open>Malformed\<close> when its
  value is none that the Boolean column accepts, which makes \<open>rating.save()\<close> raise.
\<close>

definition moderate ::
  "db \<Rightarrow> int \<Rightarrow> nat \<Rightarrow> nat param \<Rightarrow> bool param \<Rightarrow> string option \<Rightarrow> response \<times> db" where
  "moderate s now pk specialist_id' is_approved' moderation_note' =
     (case get_rating s pk of
        None \<Rightarrow> (Response NotFound 404, s)
      | Some rating \<Rightarrow>
          (case specialist_id' of
             Absent \<Rightarrow> (Response (Error ''Specialist ID is required'') 400, s)
           | Malformed \<Rightarrow> (Response ServerError 500, s)
           | Given k \<Rightarrow>
               (case get_specialist s k of
                  None \<Rightarrow> (Response (Error ''Specialist not found'') 404, s)
                | Some sp \<Rightarrow>
                    (case is_approved' of
                       Malformed \<Rightarrow> (Response ServerError 500, s)
                     | _ \<Rightarrow>
                       (let approved = (case is_approved' of Given b \<Rightarrow> b | _ \<Rightarrow> True);
                            note = (case moderation_note' of None \<Rightarrow> [] | Some n \<Rightarrow> n);
                            rating = rating\<lparr>is_approved := approved,
                                            moderated_by := Some (specialist_id sp),
                                            moderation_date := Some now,
                                            moderation_note := note\<rparr>;
                            s1 = save_rating rating s;
                            verdict = ''Rating '' @ (if approved then ''approved'' else ''rejected'');
                            s2 = ActionLog_create
                                   \<lparr>action_type = ''MODERATE_RATING'',
                                    user_type = ''SPECIALIST'',
                                    user_id = Some (specialist_id sp),
                                    accommodation_id = Some (rat_accommodation rating),
                                    reservation_id = None,
                                    rating_id = Some (rat_id rating),
                                    details = verdict @ '': '' @ note\<rparr> s1
                        in (Response (RatingStatus verdict rating) 200, s2))))))"

text \<open>
  The rejections of the error taxonomy: the validation and conflict errors (400) and the
  not-found errors (404).
\<close>

definition rejected :: "response \<Rightarrow> bool" where
  "rejected r = (status_code r = 400 \<or> status_code r = 404)"

subsection \<open>Rating creation\<close>

text \<open>
  Modelled from the spec: the operation that creates a \<open>Rating\<close>. \<open>RatingViewSet\<close> is a
  read-only view set, and the serializer behind it (core/serializers.py) is not part of
  the verified sources, so the creation path is written after the specification: a
  rating is created only against a reservation that \<open>can_be_rated\<close>, with a score in
  the closed range from 0 to 5; it references the reservation's accommodation and
  member, is approved by default and has no moderator; the creation is audited. A
  rejection leaves the state as it was.
\<close>

definition create_rating :: "db \<Rightarrow> nat \<Rightarrow> int \<Rightarrow> string \<Rightarrow> response \<times> db" where
  "create_rating s reservation_pk score' comment' =
     (case get_reservation s reservation_pk of
        None \<Rightarrow> (Response NotFound 404, s)
      | Some reservation \<Rightarrow>
          if \<not> can_be_rated s reservation then (Response SerializerErrors 400, s)
          else if score' < 0 \<or> score' > 5 then (Response SerializerErrors 400, s)
          else
            (let rating = \<lparr>rat_id = next_id (map rat_id (ratings s)),
                            rat_accommodation = res_accommodation reservation,
                            rat_member = res_member reservation,
                            rat_reservation = res_id reservation,
                            score = score',
                            comment = comment',
                            is_approved = True,
                            moderated_by = None,
                            moderation_date = None,
                            moderation_note = []\<rparr>;
                 s1 = s\<lparr>ratings := ratings s @ [rating]\<rparr>;
                 s2 = ActionLog_create
                        \<lparr>action_type = ''CREATE_RATING'',
                         user_type = ''MEMBER'',
                         user_id = Some (rat_member rating),
                         accommodation_id = Some (rat_accommodation rating),
                         reservation_id = Some (rat_reservation rating),
                         rating_id = Some (rat_id rating),
                         details = []\<rparr> s1
             in (Response (RatingStatus ''Rating created'' rating) 201, s2)))"

section \<open>Example data\<close>

text \<open>
  A small database in the shape of the seed data of core/signals.py: a member of
  university 1, three buildings, and reservations in the four statuses. The day numbers
  count from the first day the buildings are on offer.
\<close>

definition peter :: member where
  "peter = \<lparr>member_id = 1, member_university = 1\<rparr>"

definition a_building :: accommodation where
  "a_building =
     \<lparr>acc_id = 1, name = ''A Building'', universities = [1, 2], acc_type = ''APARTMENT'',
      num_bedrooms = 2, num_beds = 4, latitude = 22.28405, longitude = 114.13784,
      available_from = 0, available_to = 365, monthly_rent = 5000, is_available = True\<rparr>"

definition b_building :: accommodation where
  "b_building =
     \<lparr>acc_id = 2, name = ''B Building'', universities = [1], acc_type = ''APARTMENT'',
      num_bedrooms = 1, num_beds = 2, latitude = 22.28405, longitude = 114.13784,
      available_from = 0, available_to = 365, monthly_rent = 4000, is_available = True\<rparr>"

definition c_building :: accommodation where
  "c_building =
     \<lparr>acc_id = 3, name = ''C Building'', universities = [2], acc_type = ''APARTMENT'',
      num_bedrooms = 2, num_beds = 4, latitude = 22.33584, longitude = 114.26355,
      available_from = 0, available_to = 365, monthly_rent = 3000, is_available = True\<rparr>"

definition booking :: "nat \<Rightarrow> nat \<Rightarrow> date \<Rightarrow> date \<Rightarrow> string \<Rightarrow> reservation" where
  "booking k a f t st =
     \<lparr>res_id = k, res_accommodation = a, res_member = 1, reserved_from = f, reserved_to = t,
      contact_name = ''Peter'', contact_phone = ''12345678'', status = st\<rparr>"

definition review :: rating where
  "review =
     \<lparr>rat_id = 1, rat_accommodation = 1, rat_member = 1, rat_reservation = 1, score = 4,
      comment = ''Quiet'', is_approved = True, moderated_by = None, moderation_date = None,
      moderation_note = []\<rparr>"

definition listing :: "accommodation list \<Rightarrow> reservation list \<Rightarrow> db" where
  "listing accs rs =
     \<lparr>members = [peter], specialists = [\<lparr>specialist_id = 7\<rparr>], campuses = [],
      accommodations = accs, reservations = rs, ratings = [], action_logs = []\<rparr>"

text \<open>A well-formed reservation request and collaborators that accept it.\<close>

definition request :: request_data where
  "request = map_of [(''member_id'', ''1''), (''reserved_from'', ''2025-01-11''),
                     (''reserved_to'', ''2025-01-21''), (''contact_name'', ''Peter''),
                     (''contact_phone'', ''12345678'')]"

definition all_present :: "request_data \<Rightarrow> string list \<Rightarrow> string option" where
  "all_present d fs = (if list_all (\<lambda>f. d f \<noteq> None) fs then None else Some ''Missing field'')"

definition accepts :: "db \<Rightarrow> reservation_input \<Rightarrow> validated_data option" where
  "accepts s i =
     Some \<lparr>v_member = 1, v_reserved_from = 10, v_reserved_to = 20,
           v_contact_name = ''Peter'', v_contact_phone = ''12345678''\<rparr>"

text \<open>
  Two later states of the database: the first building taken by a confirmed reservation,
  and a completed stay that has been rated.
\<close>

definition booked :: db where
  "booked = listing [a_building\<lparr>is_available := False\<rparr>] [booking 1 1 10 20 ''CONFIRMED'']"

definition rated :: db where
  "rated = (listing [a_building] [booking 1 1 10 20 ''COMPLETED''])\<lparr>ratings := [review]\<rparr>"

text \<open>A completed stay in the first building, which a later guest has reserved.\<close>

definition stayed :: db where
  "stayed = listing [a_building\<lparr>is_available := False\<rparr>]
              [booking 1 1 10 20 ''COMPLETED'', booking 2 1 30 40 ''PENDING'']"

text \<open>The first building held by a pending reservation.\<close>

definition held :: db where
  "held = listing [a_building\<lparr>is_available := False\<rparr>] [booking 1 1 10 20 ''PENDING'']"

text \<open>
  The audit entry \<open>update_status\<close> writes when it moves reservation \<open>r\<close> to the
  status \<open>v\<close>.
\<close>

definition status_log :: "reservation \<Rightarrow> string \<Rightarrow> action_log" where
  "status_log r v =
     \<lparr>action_type = ''UPDATE_RESERVATION_STATUS'', user_type = ''MEMBER'',
      user_id = Some (res_member r), accommodation_id = Some (res_accommodation r),
      reservation_id = Some (res_id r), rating_id = None,
      details = ''Reservation status updated from '' @ status r @ '' to '' @ v\<rparr>"

text \<open>
  The three buildings on offer with no reservation yet, and a search by the member for an
  apartment between the days 5 and 10, cheapest first, near a campus that does not exist.
\<close>

definition market :: db where
  "market = listing [a_building, b_building, c_building] []"

definition wanted :: search_query where
  "wanted =
     \<lparr>q_type = Some ''APARTMENT'', q_available_from = Given 5, q_available_to = Given 10,
      q_num_beds = Given 2, q_num_bedrooms = Given 1, q_min_price = Given 3500,
      q_max_price = Given 6000, q_campus_id = Given 99, q_sort_by = Some ''price_asc'',
      q_member_id = Given 1\<rparr>"

text \<open>
  The first building, still marked available, with a pending reservation that ends on
  day 5 and a cancelled one for the days 20 to 30; and a search for the days 5 to 10.
\<close>

definition touching :: db where
  "touching = listing [a_building] [booking 1 1 1 5 ''PENDING'', booking 2 1 20 30 ''CANCELLED'']"

definition probe :: search_query where
  "probe =
     \<lparr>q_type = None, q_available_from = Given 5, q_available_to = Given 10,
      q_num_beds = Absent, q_num_bedrooms = Absent, q_min_price = Absent,
      q_max_price = Absent, q_campus_id = Absent, q_sort_by = Some ''price_asc'',
      q_member_id = Given 1\<rparr>"

lemmas example_defs = peter_def a_building_def b_building_def c_building_def booking_def
  review_def listing_def request_def all_present_def accepts_def

section \<open>Rows and keys\<close>

lemma find_save_row_same: "find (\<lambda>y. key y = key x) (save_row key x xs) = Some x"
  by (induction xs) (auto simp: save_row_def)

lemma find_replace_other:
  "k \<noteq> key x \<Longrightarrow>
   find (\<lambda>y. key y = k) (map (\<lambda>y. if key y = key x then x else y) xs) = find (\<lambda>y. key y = k) xs"
  by (induction xs) auto

lemma find_snoc_other:
  "k \<noteq> key x \<Longrightarrow> find (\<lambda>y. key y = k) (xs @ [x]) = find (\<lambda>y. key y = k) xs"
  by (induction xs) auto

lemma find_save_row_other:
  "k \<noteq> key x \<Longrightarrow> find (\<lambda>y. key y = k) (save_row key x xs) = find (\<lambda>y. key y = k) xs"
  by (simp add: save_row_def find_replace_other find_snoc_other)

lemma find_key: "find (\<lambda>y. key y = k) xs = Some x \<Longrightarrow> key x = k"
  by (induction xs) (auto split: if_splits)

lemma find_list_ex: "find P xs = Some x \<Longrightarrow> list_ex P xs"
  by (induction xs) (auto split: if_splits)

lemma save_row_existing:
  "find (\<lambda>y. key y = k) xs = Some x \<Longrightarrow> key x' = k \<Longrightarrow>
   save_row key x' xs = map (\<lambda>y. if key y = k then x' else y) xs"
  using find_list_ex [of "\<lambda>y. key y = k" xs x] by (simp add: save_row_def)

section \<open>The distance calculator\<close>

text \<open>
  C5. For every accommodation and campus, with all four coordinates converted from
  degrees to radians, \<open>calculate_distance\<close> is \<open>R * sqrt (x\<^sup>2 + y\<^sup>2)\<close> with
  \<open>R = 6371\<close>, \<open>x = (lon2 - lon1) * cos ((lat1 + lat2) / 2)\<close> and \<open>y = lat2 - lat1\<close>.
  The distance is never negative, and it is 0 to a campus at the accommodation's own
  coordinates. (Floats are read as real numbers.)
\<close>

theorem calculate_distance_formula:
  "calculate_distance a c =
     6371 * sqrt (((campus_longitude c * pi / 180 - longitude a * pi / 180)
                    * cos ((latitude a * pi / 180 + campus_latitude c * pi / 180) / 2))\<^sup>2
                  + (campus_latitude c * pi / 180 - latitude a * pi / 180)\<^sup>2)
   \<and> 0 \<le> calculate_distance a c
   \<and> calculate_distance a \<lparr>campus_id = k, campus_latitude = latitude a,
                            campus_longitude = longitude a\<rparr> = 0"
  by (simp add: calculate_distance_def radians_def Let_def power2_eq_square)

section \<open>The reservation life cycle\<close>

text \<open>
  C9. The model method \<open>Reservation.cancel\<close> never returns \<open>True\<close>. On a reservation
  that cannot be cancelled it returns \<open>False\<close> and changes nothing; on a pending
  reservation whose accommodation exists it also returns \<open>False\<close>, although it has set
  the stored status to CANCELLED and the accommodation's \<open>is_available\<close> to true. The
  return value does not tell the two apart.
\<close>

theorem Reservation_cancel_returns_False:
  "fst (Reservation_cancel s r) \<noteq> Some True \<and>
   (\<not> can_be_cancelled r \<longrightarrow> Reservation_cancel s r = (Some False, s)) \<and>
   (status r = ''PENDING'' \<and> get_accommodation s (res_accommodation r) = Some a \<longrightarrow>
      fst (Reservation_cancel s r) = Some False \<and>
      get_reservation (snd (Reservation_cancel s r)) (res_id r) = Some (r\<lparr>status := ''CANCELLED''\<rparr>) \<and>
      get_accommodation (snd (Reservation_cancel s r)) (res_accommodation r)
        = Some (a\<lparr>is_available := True\<rparr>))"
proof -
  have never: "fst (Reservation_cancel s r) \<noteq> Some True"
    by (simp add: Reservation_cancel_def Let_def split: option.splits)
  have noop: "\<not> can_be_cancelled r \<longrightarrow> Reservation_cancel s r = (Some False, s)"
    by (simp add: Reservation_cancel_def)
  have pending: "fst (Reservation_cancel s r) = Some False \<and>
      get_reservation (snd (Reservation_cancel s r)) (res_id r) = Some (r\<lparr>status := ''CANCELLED''\<rparr>) \<and>
      get_accommodation (snd (Reservation_cancel s r)) (res_accommodation r)
        = Some (a\<lparr>is_available := True\<rparr>)"
    if p: "status r = ''PENDING''" and a: "get_accommodation s (res_accommodation r) = Some a"
  proof -
    have k: "acc_id a = res_accommodation r"
      using a unfolding get_accommodation_def by (rule find_key)
    have r': "find (\<lambda>y. res_id y = res_id r) (save_row res_id (r\<lparr>status := ''CANCELLED''\<rparr>) (reservations s))
              = Some (r\<lparr>status := ''CANCELLED''\<rparr>)"
      using find_save_row_same [of res_id "r\<lparr>status := ''CANCELLED''\<rparr>" "reservations s"] by simp
    have a': "find (\<lambda>y. acc_id y = res_accommodation r)
                (save_row acc_id (a\<lparr>is_available := True\<rparr>) (accommodations s))
              = Some (a\<lparr>is_available := True\<rparr>)"
      using find_save_row_same [of acc_id "a\<lparr>is_available := True\<rparr>" "accommodations s"] k by simp
    show ?thesis
      using p a r' a'
      by (simp add: Reservation_cancel_def can_be_cancelled_def Let_def get_accommodation_def
            get_reservation_def save_reservation_def save_accommodation_def)
  qed
  from never noop pending show ?thesis by blast
qed

theorem Reservation_cancel_returns_False_witness:
  "status (booking 1 1 10 20 ''PENDING'') = ''PENDING'' \<and>
   get_accommodation (listing [a_building\<lparr>is_available := False\<rparr>] [booking 1 1 10 20 ''PENDING''])
      (res_accommodation (booking 1 1 10 20 ''PENDING'')) = Some (a_building\<lparr>is_available := False\<rparr>) \<and>
   Reservation_cancel (listing [a_building\<lparr>is_available := False\<rparr>] [booking 1 1 10 20 ''PENDING''])
      (booking 1 1 10 20 ''PENDING'')
     = (Some False, listing [a_building] [booking 1 1 10 20 ''CANCELLED'']) \<and>
   \<not> can_be_cancelled (booking 1 1 10 20 ''COMPLETED'') \<and>
   Reservation_cancel (listing [a_building] [booking 1 1 10 20 ''COMPLETED''])
      (booking 1 1 10 20 ''COMPLETED'')
     = (Some False, listing [a_building] [booking 1 1 10 20 ''COMPLETED''])"
proof -
  have p: "status (booking 1 1 10 20 ''PENDING'') = ''PENDING''"
    by (simp add: booking_def)
  have a: "get_accommodation (listing [a_building\<lparr>is_available := False\<rparr>] [booking 1 1 10 20 ''PENDING''])
      (res_accommodation (booking 1 1 10 20 ''PENDING'')) = Some (a_building\<lparr>is_available := False\<rparr>)"
    by (simp add: get_accommodation_def listing_def booking_def a_building_def)
  have c: "\<not> can_be_cancelled (booking 1 1 10 20 ''COMPLETED'')"
    by (simp add: can_be_cancelled_def booking_def)
  have e: "snd (Reservation_cancel (listing [a_building\<lparr>is_available := False\<rparr>] [booking 1 1 10 20 ''PENDING''])
      (booking 1 1 10 20 ''PENDING''))
     = listing [a_building] [booking 1 1 10 20 ''CANCELLED'']"
    by (simp add: Reservation_cancel_def can_be_cancelled_def Let_def save_reservation_def
          save_accommodation_def save_row_def get_accommodation_def example_defs)
  from p a c e
    Reservation_cancel_returns_False
      [of "listing [a_building\<lparr>is_available := False\<rparr>] [booking 1 1 10 20 ''PENDING'']"
          "booking 1 1 10 20 ''PENDING''" "a_building\<lparr>is_available := False\<rparr>"]
    Reservation_cancel_returns_False
      [of "listing [a_building] [booking 1 1 10 20 ''COMPLETED'']" "booking 1 1 10 20 ''COMPLETED''"]
  show ?thesis by (metis prod.collapse)
qed

text \<open>
  C2. Reserving an accommodation whose \<open>is_available\<close> flag is false answers with the
  error "Accommodation not available" (status 400) and leaves the state as it was,
  whatever the request holds and whatever the two collaborators would say. Every
  successful reserve (status 201) creates a reservation of that accommodation with
  status PENDING, leaves the accommodation stored with \<open>is_available\<close> false and appends
  exactly one audit entry, whose \<open>action_type\<close> is CREATE_RESERVATION.
\<close>

theorem reserve_contract:
  "(get_accommodation s pk = Some a \<and> \<not> is_available a \<longrightarrow>
      reserve vrf iv s pk d = (Response (Error ''Accommodation not available'') 400, s)) \<and>
   (status_code (fst (reserve vrf iv s pk d)) = 201 \<longrightarrow>
      (\<exists>a r e. get_accommodation s pk = Some a \<and>
         fst (reserve vrf iv s pk d) = Response (ReservationData r) 201 \<and>
         status r = ''PENDING'' \<and> res_accommodation r = pk \<and>
         reservations (snd (reserve vrf iv s pk d)) = reservations s @ [r] \<and>
         get_accommodation (snd (reserve vrf iv s pk d)) pk = Some (a\<lparr>is_available := False\<rparr>) \<and>
         action_logs (snd (reserve vrf iv s pk d)) = action_logs s @ [e] \<and>
         action_type e = ''CREATE_RESERVATION''))"
proof -
  have conflict: "reserve vrf iv s pk d = (Response (Error ''Accommodation not available'') 400, s)"
    if "get_accommodation s pk = Some a" "\<not> is_available a"
    using that by (simp add: reserve_def)
  have success: "\<exists>a r e. get_accommodation s pk = Some a \<and>
         fst (reserve vrf iv s pk d) = Response (ReservationData r) 201 \<and>
         status r = ''PENDING'' \<and> res_accommodation r = pk \<and>
         reservations (snd (reserve vrf iv s pk d)) = reservations s @ [r] \<and>
         get_accommodation (snd (reserve vrf iv s pk d)) pk = Some (a\<lparr>is_available := False\<rparr>) \<and>
         action_logs (snd (reserve vrf iv s pk d)) = action_logs s @ [e] \<and>
         action_type e = ''CREATE_RESERVATION''"
    if ok: "status_code (fst (reserve vrf iv s pk d)) = 201"
  proof -
    from ok obtain a where a: "get_accommodation s pk = Some a"
      by (cases "get_accommodation s pk") (auto simp: reserve_def)
    have k: "acc_id a = pk"
      using a unfolding get_accommodation_def by (rule find_key)
    have f: "find (\<lambda>y. acc_id y = pk) (save_row acc_id (a\<lparr>is_available := False\<rparr>) (accommodations s))
             = Some (a\<lparr>is_available := False\<rparr>)"
      using find_save_row_same [of acc_id "a\<lparr>is_available := False\<rparr>" "accommodations s"] k by simp
    show ?thesis
      using ok a k f
      by (auto simp: reserve_def Let_def get_accommodation_def save_accommodation_def
            ActionLog_create_def split: option.splits if_splits)
  qed
  from conflict success show ?thesis by blast
qed

theorem reserve_contract_witness:
  "get_accommodation (listing [a_building\<lparr>is_available := False\<rparr>] []) 1
     = Some (a_building\<lparr>is_available := False\<rparr>) \<and>
   \<not> is_available (a_building\<lparr>is_available := False\<rparr>) \<and>
   reserve all_present accepts (listing [a_building\<lparr>is_available := False\<rparr>] []) 1 request
     = (Response (Error ''Accommodation not available'') 400,
        listing [a_building\<lparr>is_available := False\<rparr>] []) \<and>
   status_code (fst (reserve all_present accepts (listing [a_building] []) 1 request)) = 201 \<and>
   (\<exists>r e. fst (reserve all_present accepts (listing [a_building] []) 1 request)
              = Response (ReservationData r) 201 \<and>
          status r = ''PENDING'' \<and>
          get_accommodation (snd (reserve all_present accepts (listing [a_building] []) 1 request)) 1
              = Some (a_building\<lparr>is_available := False\<rparr>) \<and>
          action_logs (snd (reserve all_present accepts (listing [a_building] []) 1 request)) = [e] \<and>
          action_type e = ''CREATE_RESERVATION'')"
proof -
  have a: "get_accommodation (listing [a_building\<lparr>is_available := False\<rparr>] []) 1
     = Some (a_building\<lparr>is_available := False\<rparr>)"
    by (simp add: get_accommodation_def listing_def a_building_def)
  have n: "\<not> is_available (a_building\<lparr>is_available := False\<rparr>)"
    by simp
  have b: "get_accommodation (listing [a_building] []) 1 = Some a_building"
    by (simp add: get_accommodation_def listing_def a_building_def)
  have l: "action_logs (listing [a_building] []) = []"
    by (simp add: listing_def)
  have ok: "status_code (fst (reserve all_present accepts (listing [a_building] []) 1 request)) = 201"
    by (simp add: reserve_def Let_def get_accommodation_def example_defs)
  from a n b l ok
    reserve_contract [of "listing [a_building\<lparr>is_available := False\<rparr>] []" 1
      "a_building\<lparr>is_available := False\<rparr>" all_present accepts request]
    reserve_contract [of "listing [a_building] []" 1 a_building all_present accepts request]
  show ?thesis by (auto simp del: fst_conv snd_conv)
qed

section \<open>Rejections\<close>

lemma reserve_rejected:
  "rejected (fst (reserve vrf iv s pk d)) \<Longrightarrow> snd (reserve vrf iv s pk d) = s"
  by (auto simp: reserve_def rejected_def Let_def split: option.splits if_splits)

lemma cancel_rejected: "rejected (fst (cancel s pk)) \<Longrightarrow> snd (cancel s pk) = s"
  by (auto simp: cancel_def rejected_def Let_def split: option.splits if_splits)

lemma update_status_rejected:
  "rejected (fst (update_status s pk ns)) \<Longrightarrow> snd (update_status s pk ns) = s"
  by (auto simp: update_status_def rejected_def Let_def split: option.splits if_splits)

lemma moderate_rejected:
  "rejected (fst (moderate s now pk sid ap nt)) \<Longrightarrow> snd (moderate s now pk sid ap nt) = s"
  by (auto simp: moderate_def rejected_def Let_def split: option.splits param.splits if_splits)

lemma destroy_rejected:
  "rejected (fst (destroy s pk sid)) \<Longrightarrow> snd (destroy s pk sid) = s"
  by (auto simp: destroy_def rejected_def Let_def split: option.splits param.splits if_splits)

text \<open>
  C7. Whenever reserve, cancel, update-status, moderate or delete-accommodation answers
  with a validation, conflict (400) or not-found (404) error, the database after the call
  is the database before it: no accommodation, reservation or rating row is changed and
  no audit entry is written.
\<close>

theorem rejections_leave_state_untouched:
  "(rejected (fst (reserve vrf iv s pk d)) \<longrightarrow> snd (reserve vrf iv s pk d) = s) \<and>
   (rejected (fst (cancel s pk)) \<longrightarrow> snd (cancel s pk) = s) \<and>
   (rejected (fst (update_status s pk ns)) \<longrightarrow> snd (update_status s pk ns) = s) \<and>
   (rejected (fst (moderate s now pk sid ap nt)) \<longrightarrow> snd (moderate s now pk sid ap nt) = s) \<and>
   (rejected (fst (destroy s pk sid)) \<longrightarrow> snd (destroy s pk sid) = s)"
  using reserve_rejected cancel_rejected update_status_rejected moderate_rejected destroy_rejected
  by blast

theorem rejections_leave_state_untouched_witness:
  "fst (reserve all_present accepts booked 1 request)
     = Response (Error ''Accommodation not available'') 400 \<and>
   snd (reserve all_present accepts booked 1 request) = booked \<and>
   fst (cancel booked 1) = Response (Error ''Cannot cancel a confirmed reservation'') 400 \<and>
   snd (cancel booked 1) = booked \<and>
   fst (update_status booked 1 (Some ''EXPIRED'')) = Response (Error ''Invalid status value'') 400 \<and>
   snd (update_status booked 1 (Some ''EXPIRED'')) = booked \<and>
   fst (moderate rated 100 1 (Given 8) Absent None) = Response (Error ''Specialist not found'') 404 \<and>
   snd (moderate rated 100 1 (Given 8) Absent None) = rated \<and>
   fst (destroy booked 1 (Given 7))
     = Response (Error ''Cannot delete accommodation with active reservations'') 400 \<and>
   snd (destroy booked 1 (Given 7)) = booked"
proof -
  have r1: "fst (reserve all_present accepts booked 1 request)
     = Response (Error ''Accommodation not available'') 400"
    by (simp add: reserve_def get_accommodation_def booked_def listing_def a_building_def)
  have r2: "fst (cancel booked 1) = Response (Error ''Cannot cancel a confirmed reservation'') 400"
    by (simp add: cancel_def get_reservation_def booked_def listing_def booking_def)
  have r3: "fst (update_status booked 1 (Some ''EXPIRED'')) = Response (Error ''Invalid status value'') 400"
    by (simp add: update_status_def get_reservation_def STATUS_CHOICES_def booked_def listing_def
          booking_def Let_def)
  have r4: "fst (moderate rated 100 1 (Given 8) Absent None) = Response (Error ''Specialist not found'') 404"
    by (simp add: moderate_def get_rating_def get_specialist_def rated_def listing_def review_def)
  have r5: "fst (destroy booked 1 (Given 7))
     = Response (Error ''Cannot delete accommodation with active reservations'') 400"
    by (simp add: destroy_def get_accommodation_def booked_def listing_def a_building_def
          booking_def Let_def)
  have rej: "rejected (Response (Error m) 400)" "rejected (Response (Error m) 404)" for m
    by (simp_all add: rejected_def)
  from r1 r2 r3 r4 r5 rej
    rejections_leave_state_untouched
      [of all_present accepts booked 1 request "Some ''EXPIRED''" 100 "Given 7" Absent None]
    rejections_leave_state_untouched
      [of all_present accepts rated 1 request None 100 "Given 8" Absent None]
  show ?thesis by simp
qed

section \<open>Cancelling through the view\<close>

text \<open>
  What \<open>ReservationViewSet.cancel\<close> does on the two sides of its only guard: a confirmed
  reservation is refused and the state kept; any other reservation whose accommodation
  exists is cancelled, its accommodation re-opened and one audit entry written.
\<close>

lemma cancel_confirmed_rejected:
  "get_reservation s pk = Some r \<Longrightarrow> status r = ''CONFIRMED'' \<Longrightarrow>
   cancel s pk = (Response (Error ''Cannot cancel a confirmed reservation'') 400, s)"
  by (simp add: cancel_def)

lemma cancel_success:
  assumes r: "get_reservation s pk = Some r" and n: "status r \<noteq> ''CONFIRMED''"
    and a: "get_accommodation s (res_accommodation r) = Some a"
  shows "fst (cancel s pk) = Response (Status ''Reservation cancelled successfully'') 200"
    and "get_reservation (snd (cancel s pk)) pk = Some (r\<lparr>status := ''CANCELLED''\<rparr>)"
    and "get_accommodation (snd (cancel s pk)) (res_accommodation r) = Some (a\<lparr>is_available := True\<rparr>)"
    and "\<exists>e. action_logs (snd (cancel s pk)) = action_logs s @ [e] \<and> action_type e = ''CANCEL_RESERVATION''"
proof -
  have kr: "res_id r = pk"
    using r unfolding get_reservation_def by (rule find_key)
  have ka: "acc_id a = res_accommodation r"
    using a unfolding get_accommodation_def by (rule find_key)
  have r': "find (\<lambda>y. res_id y = pk) (save_row res_id (r\<lparr>status := ''CANCELLED''\<rparr>) (reservations s))
              = Some (r\<lparr>status := ''CANCELLED''\<rparr>)"
    using find_save_row_same [of res_id "r\<lparr>status := ''CANCELLED''\<rparr>" "reservations s"] kr by simp
  have a': "find (\<lambda>y. acc_id y = res_accommodation r)
                (save_row acc_id (a\<lparr>is_available := True\<rparr>) (accommodations s))
              = Some (a\<lparr>is_available := True\<rparr>)"
    using find_save_row_same [of acc_id "a\<lparr>is_available := True\<rparr>" "accommodations s"] ka by simp
  have c: "cancel s pk =
      (Response (Status ''Reservation cancelled successfully'') 200,
       ActionLog_create
         \<lparr>action_type = ''CANCEL_RESERVATION'', user_type = ''MEMBER'',
          user_id = Some (res_member r), accommodation_id = Some (acc_id a),
          reservation_id = Some (res_id r), rating_id = None,
          details = ''Reservation cancelled; status changed from '' @ status r @ '' to CANCELLED''\<rparr>
         (save_accommodation (a\<lparr>is_available := True\<rparr>)
            (save_reservation (r\<lparr>status := ''CANCELLED''\<rparr>) s)))"
    using r n a
    by (simp add: cancel_def Let_def get_accommodation_def save_reservation_def)
  show "fst (cancel s pk) = Response (Status ''Reservation cancelled successfully'') 200"
    by (simp add: c)
  show "get_reservation (snd (cancel s pk)) pk = Some (r\<lparr>status := ''CANCELLED''\<rparr>)"
    using r' by (simp add: c get_reservation_def ActionLog_create_def save_accommodation_def
          save_reservation_def)
  show "get_accommodation (snd (cancel s pk)) (res_accommodation r) = Some (a\<lparr>is_available := True\<rparr>)"
    using a' by (simp add: c get_accommodation_def ActionLog_create_def save_accommodation_def
          save_reservation_def)
  show "\<exists>e. action_logs (snd (cancel s pk)) = action_logs s @ [e] \<and> action_type e = ''CANCEL_RESERVATION''"
    by (simp add: c ActionLog_create_def save_accommodation_def save_reservation_def)
qed

text \<open>
  C1. The claim has cancelling allowed from PENDING only, as \<open>can_be_cancelled\<close> and
  \<open>Reservation.cancel\<close> have it. The view tests \<open>status == 'CONFIRMED'\<close> alone: on the
  completed stay of \<open>stayed\<close>, which \<open>can_be_cancelled\<close> refuses, it answers 200, turns
  the reservation into a cancelled one, re-opens the building that the pending
  reservation 2 holds, and writes the audit entry.
\<close>

theorem cancel_completed_succeeds:
  "\<not> can_be_cancelled (booking 1 1 10 20 ''COMPLETED'') \<and>
   get_reservation stayed 1 = Some (booking 1 1 10 20 ''COMPLETED'') \<and>
   cancel stayed 1 =
     (Response (Status ''Reservation cancelled successfully'') 200,
      (listing [a_building] [booking 1 1 10 20 ''CANCELLED'', booking 2 1 30 40 ''PENDING''])
        \<lparr>action_logs :=
           [\<lparr>action_type = ''CANCEL_RESERVATION'', user_type = ''MEMBER'', user_id = Some 1,
             accommodation_id = Some 1, reservation_id = Some 1, rating_id = None,
             details = ''Reservation cancelled; status changed from COMPLETED to CANCELLED''\<rparr>]\<rparr>)"
  by (simp add: cancel_def can_be_cancelled_def get_reservation_def get_accommodation_def
        save_reservation_def save_accommodation_def save_row_def ActionLog_create_def Let_def
        stayed_def listing_def booking_def a_building_def peter_def)

section \<open>Status updates\<close>

lemma side_effect_none:
  "\<not> (v = ''CANCELLED'' \<and> old \<noteq> ''CANCELLED'') \<Longrightarrow> status_side_effect v old r s = Some s"
  by (auto simp: status_side_effect_def)

lemma side_effect_cancelled:
  "old \<noteq> ''CANCELLED'' \<Longrightarrow> get_accommodation s (res_accommodation r) = Some a \<Longrightarrow>
   status_side_effect ''CANCELLED'' old r s = Some (save_accommodation (a\<lparr>is_available := True\<rparr>) s)"
  by (simp add: status_side_effect_def)

lemma update_status_invalid:
  "get_reservation s pk = Some r \<Longrightarrow>
   \<not> (\<exists>v. ns = Some v \<and> v \<in> set [''PENDING'', ''CONFIRMED'', ''CANCELLED'', ''COMPLETED'']) \<Longrightarrow>
   update_status s pk ns = (Response (Error ''Invalid status value'') 400, s)"
  by (cases ns) (auto simp: update_status_def STATUS_CHOICES_def Let_def)

lemma update_status_plain:
  assumes r: "get_reservation s pk = Some r"
    and v: "v \<in> set [''PENDING'', ''CONFIRMED'', ''CANCELLED'', ''COMPLETED'']"
    and n: "\<not> (v = ''CANCELLED'' \<and> status r \<noteq> ''CANCELLED'')"
  shows "update_status s pk (Some v) =
           (Response (ReservationData (r\<lparr>status := v\<rparr>)) 200,
            ActionLog_create (status_log r v) (save_reservation (r\<lparr>status := v\<rparr>) s))"
proof -
  have ne: "v \<noteq> []" using v by auto
  have m: "v \<in> set (map fst STATUS_CHOICES)" using v by (simp add: STATUS_CHOICES_def)
  show ?thesis
    using r ne m side_effect_none [OF n]
    by (simp add: update_status_def Let_def status_log_def)
qed

lemma update_status_cancelled:
  assumes r: "get_reservation s pk = Some r"
    and n: "status r \<noteq> ''CANCELLED''"
    and a: "get_accommodation s (res_accommodation r) = Some a"
  shows "update_status s pk (Some ''CANCELLED'') =
           (Response (ReservationData (r\<lparr>status := ''CANCELLED''\<rparr>)) 200,
            ActionLog_create (status_log r ''CANCELLED'')
              (save_accommodation (a\<lparr>is_available := True\<rparr>)
                 (save_reservation (r\<lparr>status := ''CANCELLED''\<rparr>) s)))"
proof -
  have a1: "get_accommodation (save_reservation (r\<lparr>status := ''CANCELLED''\<rparr>) s)
              (res_accommodation (r\<lparr>status := ''CANCELLED''\<rparr>)) = Some a"
    using a by (simp add: get_accommodation_def save_reservation_def)
  show ?thesis
    using r side_effect_cancelled [OF n a1]
    by (simp add: update_status_def Let_def status_log_def STATUS_CHOICES_def)
qed

lemma stored_reservation:
  "get_reservation s pk = Some r \<Longrightarrow>
   get_reservation (ActionLog_create e (save_reservation (r\<lparr>status := v\<rparr>) s)) pk
     = Some (r\<lparr>status := v\<rparr>)"
  using find_save_row_same [of res_id "r\<lparr>status := v\<rparr>" "reservations s"]
    find_key [of res_id pk "reservations s" r]
  by (simp add: get_reservation_def ActionLog_create_def save_reservation_def)

text \<open>
  C6. For a stored reservation, \<open>update_status\<close> refuses a missing status and every
  value outside PENDING, CONFIRMED, CANCELLED and COMPLETED with the error "Invalid status
  value" (400) and keeps the state. Every accepted value is stored as the reservation's
  status, answered with 200 and audited by one new entry whose details record the old and
  the new status. Entering CANCELLED (from another status) leaves the reservation's
  accommodation stored with \<open>is_available\<close> true; entering CONFIRMED changes the
  reservation's row and the audit log and nothing else.
\<close>

theorem update_status_transitions:
  "get_reservation s pk = Some r \<Longrightarrow>
   (\<not> (\<exists>v. ns = Some v \<and> v \<in> set [''PENDING'', ''CONFIRMED'', ''CANCELLED'', ''COMPLETED'']) \<longrightarrow>
      update_status s pk ns = (Response (Error ''Invalid status value'') 400, s)) \<and>
   (v \<in> set [''PENDING'', ''CONFIRMED'', ''CANCELLED'', ''COMPLETED''] \<and>
    (v = ''CANCELLED'' \<and> status r \<noteq> ''CANCELLED'' \<longrightarrow>
       get_accommodation s (res_accommodation r) = Some a) \<longrightarrow>
      fst (update_status s pk (Some v)) = Response (ReservationData (r\<lparr>status := v\<rparr>)) 200 \<and>
      get_reservation (snd (update_status s pk (Some v))) pk = Some (r\<lparr>status := v\<rparr>) \<and>
      (\<exists>e. action_logs (snd (update_status s pk (Some v))) = action_logs s @ [e] \<and>
           details e = ''Reservation status updated from '' @ status r @ '' to '' @ v) \<and>
      (v = ''CANCELLED'' \<and> status r \<noteq> ''CANCELLED'' \<longrightarrow>
         get_accommodation (snd (update_status s pk (Some v))) (res_accommodation r)
           = Some (a\<lparr>is_available := True\<rparr>)) \<and>
      (v = ''CONFIRMED'' \<longrightarrow>
         snd (update_status s pk (Some v))
           = s\<lparr>reservations :=
                 map (\<lambda>y. if res_id y = pk then r\<lparr>status := ''CONFIRMED''\<rparr> else y) (reservations s),
               action_logs := action_logs s @ [status_log r ''CONFIRMED'']\<rparr>))"
proof -
  assume r: "get_reservation s pk = Some r"
  have kr: "res_id r = pk"
    using r unfolding get_reservation_def by (rule find_key)
  have accepted:
    "fst (update_status s pk (Some v)) = Response (ReservationData (r\<lparr>status := v\<rparr>)) 200 \<and>
      get_reservation (snd (update_status s pk (Some v))) pk = Some (r\<lparr>status := v\<rparr>) \<and>
      (\<exists>e. action_logs (snd (update_status s pk (Some v))) = action_logs s @ [e] \<and>
           details e = ''Reservation status updated from '' @ status r @ '' to '' @ v) \<and>
      (v = ''CANCELLED'' \<and> status r \<noteq> ''CANCELLED'' \<longrightarrow>
         get_accommodation (snd (update_status s pk (Some v))) (res_accommodation r)
           = Some (a\<lparr>is_available := True\<rparr>)) \<and>
      (v = ''CONFIRMED'' \<longrightarrow>
         snd (update_status s pk (Some v))
           = s\<lparr>reservations :=
                 map (\<lambda>y. if res_id y = pk then r\<lparr>status := ''CONFIRMED''\<rparr> else y) (reservations s),
               action_logs := action_logs s @ [status_log r ''CONFIRMED'']\<rparr>)"
    if v: "v \<in> set [''PENDING'', ''CONFIRMED'', ''CANCELLED'', ''COMPLETED'']"
      and fk: "v = ''CANCELLED'' \<and> status r \<noteq> ''CANCELLED'' \<longrightarrow>
                 get_accommodation s (res_accommodation r) = Some a"
  proof (cases "v = ''CANCELLED'' \<and> status r \<noteq> ''CANCELLED''")
    case True
    then have a: "get_accommodation s (res_accommodation r) = Some a" using fk by blast
    have ka: "acc_id a = res_accommodation r"
      using a unfolding get_accommodation_def by (rule find_key)
    have u: "update_status s pk (Some v) =
           (Response (ReservationData (r\<lparr>status := v\<rparr>)) 200,
            ActionLog_create (status_log r v)
              (save_accommodation (a\<lparr>is_available := True\<rparr>)
                 (save_reservation (r\<lparr>status := v\<rparr>) s)))"
      using update_status_cancelled [OF r _ a] True by simp
    have rr: "get_reservation (snd (update_status s pk (Some v))) pk = Some (r\<lparr>status := v\<rparr>)"
      using find_save_row_same [of res_id "r\<lparr>status := v\<rparr>" "reservations s"] kr
      by (simp add: u get_reservation_def ActionLog_create_def save_reservation_def
            save_accommodation_def)
    have aa: "get_accommodation (snd (update_status s pk (Some v))) (res_accommodation r)
           = Some (a\<lparr>is_available := True\<rparr>)"
      using find_save_row_same [of acc_id "a\<lparr>is_available := True\<rparr>" "accommodations s"] ka
      by (simp add: u get_accommodation_def ActionLog_create_def save_reservation_def
            save_accommodation_def)
    have ll: "\<exists>e. action_logs (snd (update_status s pk (Some v))) = action_logs s @ [e] \<and>
           details e = ''Reservation status updated from '' @ status r @ '' to '' @ v"
      by (simp add: u ActionLog_create_def save_reservation_def save_accommodation_def
            status_log_def)
    have ff: "fst (update_status s pk (Some v)) = Response (ReservationData (r\<lparr>status := v\<rparr>)) 200"
      by (simp add: u)
    have nc: "v \<noteq> ''CONFIRMED''" using True by simp
    from ff rr aa ll nc show ?thesis by blast
  next
    case False
    have u: "update_status s pk (Some v) =
           (Response (ReservationData (r\<lparr>status := v\<rparr>)) 200,
            ActionLog_create (status_log r v) (save_reservation (r\<lparr>status := v\<rparr>) s))"
      by (rule update_status_plain [OF r v False])
    have rr: "get_reservation (snd (update_status s pk (Some v))) pk = Some (r\<lparr>status := v\<rparr>)"
      using stored_reservation [OF r] by (simp add: u)
    have ll: "\<exists>e. action_logs (snd (update_status s pk (Some v))) = action_logs s @ [e] \<and>
           details e = ''Reservation status updated from '' @ status r @ '' to '' @ v"
      by (simp add: u ActionLog_create_def save_reservation_def status_log_def)
    have sv: "save_row res_id (r\<lparr>status := v\<rparr>) (reservations s)
                = map (\<lambda>y. if res_id y = pk then r\<lparr>status := v\<rparr> else y) (reservations s)"
      using save_row_existing [of res_id pk "reservations s" r "r\<lparr>status := v\<rparr>"] r kr
      by (simp add: get_reservation_def)
    have cc: "v = ''CONFIRMED'' \<longrightarrow>
         snd (update_status s pk (Some v))
           = s\<lparr>reservations :=
                 map (\<lambda>y. if res_id y = pk then r\<lparr>status := ''CONFIRMED''\<rparr> else y) (reservations s),
               action_logs := action_logs s @ [status_log r ''CONFIRMED'']\<rparr>"
    proof
      assume c: "v = ''CONFIRMED''"
      have "snd (update_status s pk (Some v))
              = s\<lparr>reservations :=
                    map (\<lambda>y. if res_id y = pk then r\<lparr>status := v\<rparr> else y) (reservations s),
                  action_logs := action_logs s @ [status_log r v]\<rparr>"
        using sv by (simp add: u ActionLog_create_def save_reservation_def)
      with c show "snd (update_status s pk (Some v))
           = s\<lparr>reservations :=
                 map (\<lambda>y. if res_id y = pk then r\<lparr>status := ''CONFIRMED''\<rparr> else y) (reservations s),
               action_logs := action_logs s @ [status_log r ''CONFIRMED'']\<rparr>"
        by simp
    qed
    have ff: "fst (update_status s pk (Some v)) = Response (ReservationData (r\<lparr>status := v\<rparr>)) 200"
      by (simp add: u)
    from False ff rr ll cc show ?thesis by blast
  qed
  from update_status_invalid [OF r] accepted
  show ?thesis by blast
qed

theorem update_status_transitions_witness:
  "get_reservation held 1 = Some (booking 1 1 10 20 ''PENDING'') \<and>
   get_accommodation held 1 = Some (a_building\<lparr>is_available := False\<rparr>) \<and>
   update_status held 1 None = (Response (Error ''Invalid status value'') 400, held) \<and>
   update_status held 1 (Some ''EXPIRED'') = (Response (Error ''Invalid status value'') 400, held) \<and>
   fst (update_status held 1 (Some ''CANCELLED''))
     = Response (ReservationData (booking 1 1 10 20 ''CANCELLED'')) 200 \<and>
   get_accommodation (snd (update_status held 1 (Some ''CANCELLED''))) 1 = Some a_building \<and>
   snd (update_status held 1 (Some ''CONFIRMED''))
     = held\<lparr>reservations := [booking 1 1 10 20 ''CONFIRMED''],
            action_logs := [status_log (booking 1 1 10 20 ''PENDING'') ''CONFIRMED'']\<rparr> \<and>
   details (status_log (booking 1 1 10 20 ''PENDING'') ''CONFIRMED'')
     = ''Reservation status updated from PENDING to CONFIRMED''"
proof -
  have r: "get_reservation held 1 = Some (booking 1 1 10 20 ''PENDING'')"
    by (simp add: get_reservation_def held_def listing_def booking_def)
  have a: "get_accommodation held 1 = Some (a_building\<lparr>is_available := False\<rparr>)"
    by (simp add: get_accommodation_def held_def listing_def a_building_def)
  have k: "res_accommodation (booking 1 1 10 20 ''PENDING'') = 1"
    "status (booking 1 1 10 20 ''PENDING'') = ''PENDING''"
    "(booking 1 1 10 20 ''PENDING'')\<lparr>status := ''CANCELLED''\<rparr> = booking 1 1 10 20 ''CANCELLED''"
    "(booking 1 1 10 20 ''PENDING'')\<lparr>status := ''CONFIRMED''\<rparr> = booking 1 1 10 20 ''CONFIRMED''"
    "a_building\<lparr>is_available := False, is_available := True\<rparr> = a_building"
    by (simp_all add: booking_def a_building_def)
  have l: "reservations held = [booking 1 1 10 20 ''PENDING'']" "action_logs held = []"
    "res_id (booking 1 1 10 20 ''PENDING'') = 1"
    by (simp_all add: held_def listing_def booking_def)
  have d: "details (status_log (booking 1 1 10 20 ''PENDING'') ''CONFIRMED'')
     = ''Reservation status updated from PENDING to CONFIRMED''"
    by (simp add: status_log_def booking_def)
  from r a k l d
    update_status_transitions [OF r, of None "''CANCELLED''" "a_building\<lparr>is_available := False\<rparr>"]
    update_status_transitions [OF r, of "Some ''EXPIRED''" "''CONFIRMED''" "a_building\<lparr>is_available := False\<rparr>"]
  show ?thesis by simp
qed

section \<open>Rating eligibility\<close>

text \<open>
  C8. \<open>can_be_rated\<close> holds of a reservation exactly when its status is COMPLETED and no
  rating row refers to it, and creating a rating (as the specification describes it)
  succeeds only for a stored reservation of which \<open>can_be_rated\<close> holds.
\<close>

theorem rating_eligibility:
  "can_be_rated s r
     = (status r = ''COMPLETED'' \<and> \<not> (\<exists>t. t \<in> set (ratings s) \<and> rat_reservation t = res_id r)) \<and>
   (status_code (fst (create_rating s pk sc cm)) = 201 \<longrightarrow>
      (\<exists>r. get_reservation s pk = Some r \<and> can_be_rated s r))"
proof -
  have g: "can_be_rated s r
     = (status r = ''COMPLETED'' \<and> \<not> (\<exists>t. t \<in> set (ratings s) \<and> rat_reservation t = res_id r))"
    by (auto simp: can_be_rated_def has_rating_def list_ex_iff)
  have c: "\<exists>r. get_reservation s pk = Some r \<and> can_be_rated s r"
    if "status_code (fst (create_rating s pk sc cm)) = 201"
    using that by (auto simp: create_rating_def Let_def split: option.splits if_splits)
  from g c show ?thesis by blast
qed

theorem rating_eligibility_witness:
  "can_be_rated (listing [a_building] [booking 1 1 10 20 ''COMPLETED'']) (booking 1 1 10 20 ''COMPLETED'') \<and>
   status_code (fst (create_rating (listing [a_building] [booking 1 1 10 20 ''COMPLETED'']) 1 5 ''Quiet'')) = 201 \<and>
   \<not> can_be_rated rated (booking 1 1 10 20 ''COMPLETED'') \<and>
   \<not> can_be_rated held (booking 1 1 10 20 ''PENDING'') \<and>
   status_code (fst (create_rating rated 1 5 ''Quiet'')) = 400 \<and>
   status_code (fst (create_rating held 1 5 ''Quiet'')) = 400"
proof -
  have ok: "status_code (fst (create_rating (listing [a_building] [booking 1 1 10 20 ''COMPLETED'']) 1 5 ''Quiet'')) = 201"
    by (simp add: create_rating_def get_reservation_def can_be_rated_def has_rating_def Let_def
          listing_def booking_def)
  have r: "get_reservation (listing [a_building] [booking 1 1 10 20 ''COMPLETED'']) 1
             = Some (booking 1 1 10 20 ''COMPLETED'')"
    by (simp add: get_reservation_def listing_def booking_def)
  have n1: "status_code (fst (create_rating rated 1 5 ''Quiet'')) = 400"
    by (simp add: create_rating_def get_reservation_def can_be_rated_def has_rating_def Let_def
          rated_def listing_def booking_def review_def)
  have n2: "status_code (fst (create_rating held 1 5 ''Quiet'')) = 400"
    by (simp add: create_rating_def get_reservation_def can_be_rated_def has_rating_def Let_def
          held_def listing_def booking_def)
  have f: "ratings rated = [review]" "rat_reservation review = 1"
    "res_id (booking 1 1 10 20 ''COMPLETED'') = 1"
    "status (booking 1 1 10 20 ''PENDING'') = ''PENDING''"
    "status (booking 1 1 10 20 ''COMPLETED'') = ''COMPLETED''"
    "ratings (listing [a_building] [booking 1 1 10 20 ''COMPLETED'']) = []"
    by (simp_all add: rated_def listing_def review_def booking_def)
  from ok r n1 n2 f
    rating_eligibility [of "listing [a_building] [booking 1 1 10 20 ''COMPLETED'']"
      "booking 1 1 10 20 ''COMPLETED''" 1 5 "''Quiet''"]
    rating_eligibility [of rated "booking 1 1 10 20 ''COMPLETED''"]
    rating_eligibility [of held "booking 1 1 10 20 ''PENDING''"]
  show ?thesis by auto
qed

section \<open>Search\<close>

lemma filter_by_mem:
  "filter_by p f qs = Some qs' \<Longrightarrow> a \<in> set qs' \<Longrightarrow> a \<in> set qs \<and> (\<forall>v. p = Given v \<longrightarrow> f v a)"
  by (cases p) (auto simp: filter_by_def)

lemma filter_type_mem:
  "a \<in> set (filter_type t qs) \<Longrightarrow> a \<in> set qs \<and> (\<forall>v. t = Some v \<and> v \<noteq> [] \<longrightarrow> acc_type a = v)"
  by (cases t) (auto simp: filter_type_def split: if_splits)

lemma exclude_overlapping_mem:
  "a \<in> set (exclude_overlapping s pf pt qs) \<Longrightarrow>
   a \<in> set qs \<and> (\<forall>f t. pf = Given f \<and> pt = Given t \<longrightarrow> \<not> excluded s f t a)"
  by (cases pf; cases pt) (auto simp: exclude_overlapping_def)

lemma filtered_mem:
  assumes "filtered s m q = Some qs" and "a \<in> set qs"
  shows "a \<in> set (accommodations s) \<and> member_university m \<in> set (universities a) \<and> is_available a \<and>
       (\<forall>t. q_type q = Some t \<and> t \<noteq> [] \<longrightarrow> acc_type a = t) \<and>
       (\<forall>v. q_available_from q = Given v \<longrightarrow> available_from a \<le> v) \<and>
       (\<forall>v. q_available_to q = Given v \<longrightarrow> v \<le> available_to a) \<and>
       (\<forall>v. q_num_beds q = Given v \<longrightarrow> v \<le> int (num_beds a)) \<and>
       (\<forall>v. q_num_bedrooms q = Given v \<longrightarrow> v \<le> int (num_bedrooms a)) \<and>
       (\<forall>v. q_min_price q = Given v \<longrightarrow> v \<le> monthly_rent a) \<and>
       (\<forall>v. q_max_price q = Given v \<longrightarrow> monthly_rent a \<le> v) \<and>
       (\<forall>f t. q_available_from q = Given f \<and> q_available_to q = Given t \<longrightarrow> \<not> excluded s f t a)"
proof -
  from assms(1) obtain q1 q2 q3 q4 q5 q6 where
    s1: "filter_by (q_available_from q) (\<lambda>v a. available_from a \<le> v)
           (filter_type (q_type q)
              (filter (\<lambda>a. member_university m \<in> set (universities a) \<and> is_available a)
                 (accommodations s))) = Some q1"
    and s2: "filter_by (q_available_to q) (\<lambda>v a. available_to a \<ge> v) q1 = Some q2"
    and s3: "filter_by (q_num_beds q) (\<lambda>v a. int (num_beds a) \<ge> v) q2 = Some q3"
    and s4: "filter_by (q_num_bedrooms q) (\<lambda>v a. int (num_bedrooms a) \<ge> v) q3 = Some q4"
    and s5: "filter_by (q_min_price q) (\<lambda>v a. monthly_rent a \<ge> v) q4 = Some q5"
    and s6: "filter_by (q_max_price q) (\<lambda>v a. monthly_rent a \<le> v) q5 = Some q6"
    and s7: "qs = exclude_overlapping s (q_available_from q) (q_available_to q) q6"
    unfolding filtered_def Let_def by (auto simp: Option.bind_eq_Some_conv)
  from assms(2) s7 have m7: "a \<in> set q6"
    "\<forall>f t. q_available_from q = Given f \<and> q_available_to q = Given t \<longrightarrow> \<not> excluded s f t a"
    using exclude_overlapping_mem by blast+
  from filter_by_mem [OF s6 m7(1)] have m6: "a \<in> set q5" "\<forall>v. q_max_price q = Given v \<longrightarrow> monthly_rent a \<le> v"
    by blast+
  from filter_by_mem [OF s5 m6(1)] have m5: "a \<in> set q4" "\<forall>v. q_min_price q = Given v \<longrightarrow> v \<le> monthly_rent a"
    by blast+
  from filter_by_mem [OF s4 m5(1)] have m4: "a \<in> set q3" "\<forall>v. q_num_bedrooms q = Given v \<longrightarrow> v \<le> int (num_bedrooms a)"
    by blast+
  from filter_by_mem [OF s3 m4(1)] have m3: "a \<in> set q2" "\<forall>v. q_num_beds q = Given v \<longrightarrow> v \<le> int (num_beds a)"
    by blast+
  from filter_by_mem [OF s2 m3(1)] have m2: "a \<in> set q1" "\<forall>v. q_available_to q = Given v \<longrightarrow> v \<le> available_to a"
    by blast+
  from filter_by_mem [OF s1 m2(1)] have m1: "a \<in> set (filter_type (q_type q)
              (filter (\<lambda>a. member_university m \<in> set (universities a) \<and> is_available a)
                 (accommodations s)))" "\<forall>v. q_available_from q = Given v \<longrightarrow> available_from a \<le> v"
    by blast+
  from filter_type_mem [OF m1(1)] have m0: "a \<in> set (accommodations s)"
    "member_university m \<in> set (universities a)" "is_available a"
    "\<forall>t. q_type q = Some t \<and> t \<noteq> [] \<longrightarrow> acc_type a = t"
    by auto
  from m0 m1(2) m2(2) m3(2) m4(2) m5(2) m6(2) m7(2) show ?thesis by blast
qed

lemma listed_rank_subset: "set (listed (rank s q qs)) \<subseteq> set qs"
  by (auto simp: rank_def Let_def split: param.splits option.splits)

lemma rank_price_asc:
  "q_sort_by q = Some ''price_asc'' \<Longrightarrow>
   rank s q qs = Response (AccommodationList (sort_key monthly_rent qs)) 200"
  by (simp add: rank_def)

lemma rank_price_desc:
  "q_sort_by q = Some ''price_desc'' \<Longrightarrow>
   rank s q qs = Response (AccommodationList (rev (sort_key monthly_rent qs))) 200"
  by (simp add: rank_def)

lemma search_cases:
  assumes "q_member_id q = Given k" "get_member s k = Some m"
  shows "(filtered s m q = None \<and> search s q = Response ServerError 500) \<or>
         (\<exists>qs. filtered s m q = Some qs \<and> search s q = rank s q qs)"
  using assms by (cases "filtered s m q") (auto simp: search_def)

text \<open>
  C4. For a search whose \<open>member_id\<close> names a stored member, every accommodation the
  response lists is stored, is associated with the member's university and has
  \<open>is_available\<close> true, and satisfies every filter the query supplies: the type, the
  minimum numbers of beds and bedrooms, the inclusive price range and the containment of
  the requested window in the accommodation's. With \<open>sort_by = price_asc\<close> the rents in
  the response never decrease, with \<open>price_desc\<close> they never increase.
\<close>

theorem search_results:
  "q_member_id q = Given k \<Longrightarrow> get_member s k = Some m \<Longrightarrow>
   (\<forall>a \<in> set (listed (search s q)).
       a \<in> set (accommodations s) \<and> member_university m \<in> set (universities a) \<and> is_available a \<and>
       (\<forall>t. q_type q = Some t \<and> t \<noteq> [] \<longrightarrow> acc_type a = t) \<and>
       (\<forall>v. q_num_beds q = Given v \<longrightarrow> v \<le> int (num_beds a)) \<and>
       (\<forall>v. q_num_bedrooms q = Given v \<longrightarrow> v \<le> int (num_bedrooms a)) \<and>
       (\<forall>v. q_min_price q = Given v \<longrightarrow> v \<le> monthly_rent a) \<and>
       (\<forall>v. q_max_price q = Given v \<longrightarrow> monthly_rent a \<le> v) \<and>
       (\<forall>v. q_available_from q = Given v \<longrightarrow> available_from a \<le> v) \<and>
       (\<forall>v. q_available_to q = Given v \<longrightarrow> v \<le> available_to a)) \<and>
   (q_sort_by q = Some ''price_asc'' \<longrightarrow> sorted (map monthly_rent (listed (search s q)))) \<and>
   (q_sort_by q = Some ''price_desc'' \<longrightarrow> sorted (rev (map monthly_rent (listed (search s q)))))"
proof -
  assume k: "q_member_id q = Given k" and m: "get_member s k = Some m"
  from search_cases [OF k m] show ?thesis
  proof
    assume "filtered s m q = None \<and> search s q = Response ServerError 500"
    then show ?thesis by simp
  next
    assume "\<exists>qs. filtered s m q = Some qs \<and> search s q = rank s q qs"
    then obtain qs where f: "filtered s m q = Some qs" and r: "search s q = rank s q qs"
      by blast
    have members: "\<forall>a \<in> set (listed (search s q)).
       a \<in> set (accommodations s) \<and> member_university m \<in> set (universities a) \<and> is_available a \<and>
       (\<forall>t. q_type q = Some t \<and> t \<noteq> [] \<longrightarrow> acc_type a = t) \<and>
       (\<forall>v. q_num_beds q = Given v \<longrightarrow> v \<le> int (num_beds a)) \<and>
       (\<forall>v. q_num_bedrooms q = Given v \<longrightarrow> v \<le> int (num_bedrooms a)) \<and>
       (\<forall>v. q_min_price q = Given v \<longrightarrow> v \<le> monthly_rent a) \<and>
       (\<forall>v. q_max_price q = Given v \<longrightarrow> monthly_rent a \<le> v) \<and>
       (\<forall>v. q_available_from q = Given v \<longrightarrow> available_from a \<le> v) \<and>
       (\<forall>v. q_available_to q = Given v \<longrightarrow> v \<le> available_to a)"
    proof
      fix a assume "a \<in> set (listed (search s q))"
      then have "a \<in> set qs" using listed_rank_subset [of s q qs] r by auto
      from filtered_mem [OF f this] show "a \<in> set (accommodations s) \<and> member_university m \<in> set (universities a) \<and> is_available a \<and>
       (\<forall>t. q_type q = Some t \<and> t \<noteq> [] \<longrightarrow> acc_type a = t) \<and>
       (\<forall>v. q_num_beds q = Given v \<longrightarrow> v \<le> int (num_beds a)) \<and>
       (\<forall>v. q_num_bedrooms q = Given v \<longrightarrow> v \<le> int (num_bedrooms a)) \<and>
       (\<forall>v. q_min_price q = Given v \<longrightarrow> v \<le> monthly_rent a) \<and>
       (\<forall>v. q_max_price q = Given v \<longrightarrow> monthly_rent a \<le> v) \<and>
       (\<forall>v. q_available_from q = Given v \<longrightarrow> available_from a \<le> v) \<and>
       (\<forall>v. q_available_to q = Given v \<longrightarrow> v \<le> available_to a)"
        by blast
    qed
    have asc: "q_sort_by q = Some ''price_asc'' \<longrightarrow> sorted (map monthly_rent (listed (search s q)))"
      by (simp add: r rank_price_asc)
    have desc: "q_sort_by q = Some ''price_desc'' \<longrightarrow> sorted (rev (map monthly_rent (listed (search s q))))"
      by (simp add: r rank_price_desc rev_map)
    from members asc desc show ?thesis by blast
  qed
qed

lemma search_wanted: "search market wanted = Response (AccommodationList [b_building, a_building]) 200"
  by (simp add: search_def get_member_def filtered_def filter_by_def filter_type_def
        exclude_overlapping_def excluded_def reservations_of_def rank_def Let_def
        market_def wanted_def listing_def peter_def a_building_def b_building_def c_building_def)

theorem search_results_witness:
  "q_member_id wanted = Given 1 \<and> get_member market 1 = Some peter \<and>
   listed (search market wanted) = [b_building, a_building] \<and>
   1 \<in> set (universities b_building) \<and> is_available b_building \<and>
   acc_type b_building = ''APARTMENT'' \<and> 2 \<le> int (num_beds b_building) \<and>
   3500 \<le> monthly_rent b_building \<and> monthly_rent b_building \<le> 6000 \<and>
   available_from b_building \<le> 5 \<and> 10 \<le> available_to b_building \<and>
   1 \<in> set (universities a_building) \<and> is_available a_building \<and>
   acc_type a_building = ''APARTMENT'' \<and> 2 \<le> int (num_beds a_building) \<and>
   3500 \<le> monthly_rent a_building \<and> monthly_rent a_building \<le> 6000 \<and>
   available_from a_building \<le> 5 \<and> 10 \<le> available_to a_building \<and>
   sorted (map monthly_rent [b_building, a_building])"
proof -
  have k: "q_member_id wanted = Given 1" by (simp add: wanted_def)
  have m: "get_member market 1 = Some peter"
    by (simp add: get_member_def market_def listing_def peter_def)
  have l: "listed (search market wanted) = [b_building, a_building]"
    by (simp add: search_wanted)
  have w: "q_type wanted = Some ''APARTMENT''" "q_num_beds wanted = Given 2"
    "q_min_price wanted = Given 3500" "q_max_price wanted = Given 6000"
    "q_available_from wanted = Given 5" "q_available_to wanted = Given 10"
    "q_sort_by wanted = Some ''price_asc''" "member_university peter = 1"
    by (simp_all add: wanted_def peter_def)
  from search_results [OF k m] show ?thesis
    unfolding l using k m w by simp
qed

lemma rank_campus_irrelevant:
  "q_sort_by q = Some sb \<Longrightarrow> sb = ''price_asc'' \<or> sb = ''price_desc'' \<Longrightarrow>
   rank s (q\<lparr>q_campus_id := c\<rparr>) qs = rank s q qs"
  by (auto simp: rank_def)

lemma filtered_campus_irrelevant: "filtered s m (q\<lparr>q_campus_id := c\<rparr>) = filtered s m q"
  by (simp add: filtered_def)

lemma search_campus_irrelevant:
  "q_sort_by q = Some sb \<Longrightarrow> sb = ''price_asc'' \<or> sb = ''price_desc'' \<Longrightarrow>
   search s (q\<lparr>q_campus_id := c\<rparr>) = search s q"
  by (simp add: search_def filtered_campus_irrelevant rank_campus_irrelevant
        split: param.splits option.splits)

text \<open>
  C10. When \<open>sort_by\<close> is \<open>price_asc\<close> or \<open>price_desc\<close>, \<open>campus_id\<close> is not looked
  at: the response is the same for every value of it, it is never the error "Campus not
  found", and for a stored member and well-formed filters it is the status-200 list of
  the filtered accommodations in price order, without distances, also when \<open>campus_id\<close>
  names no campus.
\<close>

theorem price_sort_ignores_campus:
  "q_sort_by q = Some sb \<Longrightarrow> sb = ''price_asc'' \<or> sb = ''price_desc'' \<Longrightarrow>
   search s (q\<lparr>q_campus_id := c\<rparr>) = search s q \<and>
   search s q \<noteq> Response (Error ''Campus not found'') 404 \<and>
   (\<forall>k m qs. q_member_id q = Given k \<and> get_member s k = Some m \<and> filtered s m q = Some qs \<longrightarrow>
      (\<exists>xs. search s q = Response (AccommodationList xs) 200 \<and> set xs = set qs \<and>
            (sb = ''price_asc'' \<longrightarrow> sorted (map monthly_rent xs)) \<and>
            (sb = ''price_desc'' \<longrightarrow> sorted (rev (map monthly_rent xs)))))"
proof -
  assume sb: "q_sort_by q = Some sb" and p: "sb = ''price_asc'' \<or> sb = ''price_desc''"
  have same: "search s (q\<lparr>q_campus_id := c\<rparr>) = search s q"
    by (rule search_campus_irrelevant [OF sb p])
  have never: "search s q \<noteq> Response (Error ''Campus not found'') 404"
    using sb p by (auto simp: search_def rank_def split: param.splits option.splits)
  have listed: "\<exists>xs. search s q = Response (AccommodationList xs) 200 \<and> set xs = set qs \<and>
            (sb = ''price_asc'' \<longrightarrow> sorted (map monthly_rent xs)) \<and>
            (sb = ''price_desc'' \<longrightarrow> sorted (rev (map monthly_rent xs)))"
    if "q_member_id q = Given k" "get_member s k = Some m" "filtered s m q = Some qs" for k m qs
  proof -
    have r: "search s q = rank s q qs" using that by (simp add: search_def)
    from p show ?thesis
    proof
      assume a: "sb = ''price_asc''"
      then have "search s q = Response (AccommodationList (sort_key monthly_rent qs)) 200"
        using sb r by (simp add: rank_price_asc)
      then show ?thesis using a by simp
    next
      assume d: "sb = ''price_desc''"
      then have "search s q = Response (AccommodationList (rev (sort_key monthly_rent qs))) 200"
        using sb r by (simp add: rank_price_desc)
      then show ?thesis using d by (simp add: rev_map)
    qed
  qed
  from same never listed show ?thesis by blast
qed

lemma search_wanted_desc:
  "search market (wanted\<lparr>q_sort_by := Some ''price_desc''\<rparr>)
     = Response (AccommodationList [a_building, b_building]) 200"
  by (simp add: search_def get_member_def filtered_def filter_by_def filter_type_def
        exclude_overlapping_def excluded_def reservations_of_def rank_def Let_def
        market_def wanted_def listing_def peter_def a_building_def b_building_def c_building_def)

lemma search_wanted_distance:
  "search market (wanted\<lparr>q_sort_by := None\<rparr>) = Response (Error ''Campus not found'') 404"
  by (simp add: search_def get_member_def get_campus_def filtered_def filter_by_def filter_type_def
        exclude_overlapping_def excluded_def reservations_of_def rank_def Let_def
        market_def wanted_def listing_def peter_def a_building_def b_building_def c_building_def)

theorem price_sort_ignores_campus_witness:
  "q_sort_by (wanted\<lparr>q_sort_by := Some ''price_desc''\<rparr>) = Some ''price_desc'' \<and>
   q_campus_id (wanted\<lparr>q_sort_by := Some ''price_desc''\<rparr>) = Given 99 \<and>
   get_campus market 99 = None \<and>
   search market (wanted\<lparr>q_sort_by := Some ''price_desc''\<rparr>)
     = Response (AccommodationList [a_building, b_building]) 200 \<and>
   search market (wanted\<lparr>q_sort_by := Some ''price_desc'', q_campus_id := Absent\<rparr>)
     = Response (AccommodationList [a_building, b_building]) 200 \<and>
   search market (wanted\<lparr>q_sort_by := Some ''price_desc''\<rparr>)
     \<noteq> Response (Error ''Campus not found'') 404 \<and>
   search market (wanted\<lparr>q_sort_by := None\<rparr>) = Response (Error ''Campus not found'') 404"
proof -
  have sb: "q_sort_by (wanted\<lparr>q_sort_by := Some ''price_desc''\<rparr>) = Some ''price_desc''"
    by simp
  have c: "q_campus_id (wanted\<lparr>q_sort_by := Some ''price_desc''\<rparr>) = Given 99"
    by (simp add: wanted_def)
  have n: "get_campus market 99 = None"
    by (simp add: get_campus_def market_def listing_def)
  from sb c n search_wanted_desc search_wanted_distance
    price_sort_ignores_campus [OF sb, of market Absent]
  show ?thesis by simp
qed

text \<open>
  The overlap exclusion, where it does what the specification says: an accommodation with
  a pending or confirmed reservation that overlaps the requested days is not listed, and
  an accommodation whose single reservation ends on the first requested day is not
  excluded.
\<close>

lemma overlapping_active_excluded:
  assumes "r \<in> set (reservations s)" "res_accommodation r = acc_id a"
    and "status r = ''PENDING'' \<or> status r = ''CONFIRMED''"
    and "reserved_from r < t" "reserved_to r > f"
  shows "excluded s f t a"
  using assms by (auto simp: excluded_def reservations_of_def list_ex_iff)

lemma overlapping_active_not_listed:
  assumes "q_member_id q = Given k" "get_member s k = Some m"
    and "q_available_from q = Given f" "q_available_to q = Given t"
    and "r \<in> set (reservations s)" "res_accommodation r = acc_id a"
    and "status r = ''PENDING'' \<or> status r = ''CONFIRMED''"
    and "reserved_from r < t" "reserved_to r > f"
  shows "a \<notin> set (listed (search s q))"
proof
  assume a: "a \<in> set (listed (search s q))"
  from search_cases [OF assms(1,2)] a obtain qs where
    f: "filtered s m q = Some qs" and r: "search s q = rank s q qs"
    by auto
  from a r listed_rank_subset [of s q qs] have "a \<in> set qs" by auto
  from filtered_mem [OF f this] assms(3,4) have "\<not> excluded s f t a" by blast
  with overlapping_active_excluded [OF assms(5-9)] show False by blast
qed

lemma sole_reservation_touching_kept:
  assumes "reservations_of s a = [r]" "reserved_to r = f"
  shows "\<not> excluded s f t a"
  using assms by (simp add: excluded_def)

text \<open>
  C3. The claim has an accommodation kept when its only pending or confirmed reservation
  ends exactly on the first requested day. In \<open>touching\<close> that is so, and no reservation
  of the building, of whatever status, overlaps the days 5 to 10; yet the building is
  excluded and the search lists nothing: the pending reservation starts before day 10,
  the cancelled one ends after day 5, and \<open>exclude()\<close> asks no more. Without the
  cancelled reservation the building is listed.
\<close>

theorem search_excludes_boundary_reservation:
  "reservations_of touching a_building
     = [booking 1 1 1 5 ''PENDING'', booking 2 1 20 30 ''CANCELLED''] \<and>
   reserved_to (booking 1 1 1 5 ''PENDING'') = 5 \<and>
   \<not> (reserved_from (booking 1 1 1 5 ''PENDING'') < 10 \<and> reserved_to (booking 1 1 1 5 ''PENDING'') > 5) \<and>
   \<not> (reserved_from (booking 2 1 20 30 ''CANCELLED'') < 10 \<and> reserved_to (booking 2 1 20 30 ''CANCELLED'') > 5) \<and>
   excluded touching 5 10 a_building \<and>
   search touching probe = Response (AccommodationList []) 200 \<and>
   search (listing [a_building] [booking 1 1 1 5 ''PENDING'']) probe
     = Response (AccommodationList [a_building]) 200"
  by (simp add: search_def get_member_def filtered_def filter_by_def filter_type_def
        exclude_overlapping_def excluded_def reservations_of_def rank_def Let_def
        touching_def probe_def listing_def peter_def a_building_def booking_def)

end
